theory Spec2Isabelle
  imports Main
begin

section \<open>The preprocessor state\<close>

text \<open>
  \<^verbatim>\<open>src/sokol/c/sokol_defines.h\<close> is a header of preprocessor directives only: three
  conditional groups that define macros and include one system header. What it does is
  a function of the macro table it is read with (the macros the compiler predefines for
  the target) and of what the included system header does to that table, so the header
  is embedded as a function on the preprocessor's state, each directive a state
  transformer, with the included file's effect as a parameter.

  A macro is object-like (\<open>params = None\<close>) or function-like (\<open>params = Some ps\<close>), with
  its replacement text.
\<close>

type_synonym macro_name = string

record macro_def =
  params :: "string list option"
  body :: string

type_synonym macro_table = "macro_name \<rightharpoonup> macro_def"

text \<open>
  The state threaded through the header: the macro table, and a log of what the header
  itself did, in source order: the \<^verbatim>\<open>#define\<close> directives it executed (\<open>defs\<close>), the names
  among them that replaced a different earlier definition (\<open>redefs\<close>), and the files of
  the \<^verbatim>\<open>#include\<close> directives it executed (\<open>incls\<close>).
\<close>

record pp_state =
  macros :: macro_table
  defs :: "(macro_name \<times> macro_def) list"
  redefs :: "macro_name list"
  incls :: "string list"

text \<open>\<^verbatim>\<open>defined(NAME)\<close>: the name has an entry in the macro table as it stands.\<close>

definition pp_defined :: "macro_name \<Rightarrow> pp_state \<Rightarrow> bool" where
  "pp_defined n s = (macros s n \<noteq> None)"

text \<open>
  What a \<^verbatim>\<open>#define\<close> of \<open>n\<close> as \<open>d\<close> redefines in table \<open>t\<close>: defining a name again
  with the same definition is allowed in C and changes nothing; with a different
  definition it is a redefinition of \<open>n\<close>.
\<close>

definition redefined_by :: "macro_table \<Rightarrow> macro_name \<Rightarrow> macro_def \<Rightarrow> macro_name list" where
  "redefined_by t n d =
     (case t n of None \<Rightarrow> [] | Some d' \<Rightarrow> if d' = d then [] else [n])"

text \<open>
  \<^verbatim>\<open>#define NAME body\<close> and \<^verbatim>\<open>#define NAME(params) body\<close>: the table gets the
  definition (replacing an earlier one of the name) and the directive is logged, with the
  redefinition it makes, if any.
\<close>

definition pp_define :: "macro_name \<Rightarrow> string list option \<Rightarrow> string \<Rightarrow> pp_state \<Rightarrow> pp_state" where
  "pp_define n ps b s =
     (let d = \<lparr>params = ps, body = b\<rparr> in
      s\<lparr>macros := (macros s)(n \<mapsto> d),
        defs := defs s @ [(n, d)],
        redefs := redefs s @ redefined_by (macros s) n d\<rparr>)"

text \<open>
  \<^verbatim>\<open>#include <file>\<close>: the directive is logged and the file is processed. The included
  file is a system header and no part of this repository, so what processing it does to
  the macro table is a parameter \<open>eff\<close> of the directive: any function on macro tables.
  Only the directives of the header itself are logged.
\<close>

definition pp_include :: "string \<Rightarrow> (macro_table \<Rightarrow> macro_table) \<Rightarrow> pp_state \<Rightarrow> pp_state" where
  "pp_include f eff s = s\<lparr>macros := eff (macros s), incls := incls s @ [f]\<rparr>"

text \<open>A group of directives runs them in order.\<close>

definition pp_group :: "(pp_state \<Rightarrow> pp_state) list \<Rightarrow> pp_state \<Rightarrow> pp_state" where
  "pp_group ds s = fold (\<lambda>d. d) ds s"

text \<open>
  \<^verbatim>\<open>#if c ... #else ... #endif\<close>: the condition is evaluated on the state the directive
  is reached with; an \<^verbatim>\<open>#if\<close> without \<^verbatim>\<open>#else\<close> has the empty group as its second
  branch, and \<^verbatim>\<open>#elif\<close> is an \<^verbatim>\<open>#if\<close> in the \<^verbatim>\<open>#else\<close> group.
\<close>

definition pp_if ::
  "(pp_state \<Rightarrow> bool) \<Rightarrow> (pp_state \<Rightarrow> pp_state) list \<Rightarrow> (pp_state \<Rightarrow> pp_state) list \<Rightarrow>
   pp_state \<Rightarrow> pp_state" where
  "pp_if c yes no s = (if c s then pp_group yes s else pp_group no s)"

section \<open>The header\<close>

text \<open>
  \<^verbatim>\<open>
  #if !defined(__ANDROID__)
      #define SOKOL_NO_ENTRY
  #endif
  #if defined(_WIN32)
      #define SOKOL_WIN32_FORCE_MAIN
      #define SOKOL_D3D11
      #define SOKOL_LOG(msg) OutputDebugStringA(msg)
  #elif defined(__APPLE__)
      #define SOKOL_METAL
  #else
      #define SOKOL_GLCORE33
  #endif
  // FIXME: macOS Zig HACK without this, some C stdlib headers throw errors
  #if defined(__APPLE__)
  #include <TargetConditionals.h>
  #endif
  \<close>
\<close>

text \<open>
  The header, with the effect \<open>tc\<close> of processing \<^verbatim>\<open>TargetConditionals.h\<close> on the macro
  table as its parameter (on macOS that file defines the \<^verbatim>\<open>TARGET_OS_*\<close> and
  \<^verbatim>\<open>TARGET_CPU_*\<close> macros for the headers read afterwards).
\<close>

definition sokol_defines_h :: "(macro_table \<Rightarrow> macro_table) \<Rightarrow> pp_state \<Rightarrow> pp_state" where
  "sokol_defines_h tc =
     pp_group
       [pp_if (\<lambda>s. \<not> pp_defined ''__ANDROID__'' s)
          [pp_define ''SOKOL_NO_ENTRY'' None '''']
          [],
        pp_if (pp_defined ''_WIN32'')
          [pp_define ''SOKOL_WIN32_FORCE_MAIN'' None '''',
           pp_define ''SOKOL_D3D11'' None '''',
           pp_define ''SOKOL_LOG'' (Some [''msg'']) ''OutputDebugStringA(msg)'']
          [pp_if (pp_defined ''__APPLE__'')
             [pp_define ''SOKOL_METAL'' None '''']
             [pp_define ''SOKOL_GLCORE33'' None '''']],
        pp_if (pp_defined ''__APPLE__'')
          [pp_include ''TargetConditionals.h'' tc]
          []]"

text \<open>
  Preprocessing the header for a target: the state starts with the macro table of the
  target and an empty log.
\<close>

definition initial :: "macro_table \<Rightarrow> pp_state" where
  "initial env = \<lparr>macros = env, defs = [], redefs = [], incls = []\<rparr>"

definition preprocess :: "(macro_table \<Rightarrow> macro_table) \<Rightarrow> macro_table \<Rightarrow> pp_state" where
  "preprocess tc env = sokol_defines_h tc (initial env)"

text \<open>The names of the macros the header defines for a target, in source order.\<close>

definition defined_names :: "(macro_table \<Rightarrow> macro_table) \<Rightarrow> macro_table \<Rightarrow> macro_name list" where
  "defined_names tc env = map fst (defs (preprocess tc env))"

text \<open>
  A target platform configuration given by the identifiers its compiler predefines (each
  as the object-like macro \<open>1\<close>; the header only ever asks whether they are defined).
\<close>

definition predefined :: "macro_name list \<Rightarrow> macro_table" where
  "predefined ns = map_of (map (\<lambda>n. (n, \<lparr>params = None, body = ''1''\<rparr>)) ns)"

text \<open>
  A sample effect for the included file, for evaluating the header on concrete targets:
  it defines \<^verbatim>\<open>TARGET_OS_MAC\<close> as \<open>1\<close> and leaves the rest of the table as it is.
\<close>

definition tc_sample :: "macro_table \<Rightarrow> macro_table" where
  "tc_sample t = t(''TARGET_OS_MAC'' \<mapsto> \<lparr>params = None, body = ''1''\<rparr>)"

text \<open>
  What the header's conditions read of a target: whether \<^verbatim>\<open>__ANDROID__\<close>, \<^verbatim>\<open>_WIN32\<close>
  and \<^verbatim>\<open>__APPLE__\<close> are defined.
\<close>

definition platform :: "macro_table \<Rightarrow> bool \<times> bool \<times> bool" where
  "platform env =
     (env ''__ANDROID__'' \<noteq> None, env ''_WIN32'' \<noteq> None, env ''__APPLE__'' \<noteq> None)"

section \<open>What the header computes\<close>

text \<open>Each directive's effect on each part of the state.\<close>

lemma pp_group_Nil: "pp_group [] s = s"
  by (simp add: pp_group_def)

lemma pp_group_Cons: "pp_group (d # ds) s = pp_group ds (d s)"
  by (simp add: pp_group_def)

lemma macros_define: "macros (pp_define n ps b s) = (macros s)(n \<mapsto> \<lparr>params = ps, body = b\<rparr>)"
  by (simp add: pp_define_def Let_def)

lemma defs_define: "defs (pp_define n ps b s) = defs s @ [(n, \<lparr>params = ps, body = b\<rparr>)]"
  by (simp add: pp_define_def Let_def)

lemma redefs_define:
  "redefs (pp_define n ps b s) = redefs s @ redefined_by (macros s) n \<lparr>params = ps, body = b\<rparr>"
  by (simp add: pp_define_def Let_def)

lemma incls_define: "incls (pp_define n ps b s) = incls s"
  by (simp add: pp_define_def Let_def)

lemma defined_define: "pp_defined m (pp_define n ps b s) = (m = n \<or> pp_defined m s)"
  by (simp add: pp_defined_def macros_define)

lemma macros_include: "macros (pp_include f eff s) = eff (macros s)"
  by (simp add: pp_include_def)

lemma defs_include: "defs (pp_include f eff s) = defs s"
  by (simp add: pp_include_def)

lemma redefs_include: "redefs (pp_include f eff s) = redefs s"
  by (simp add: pp_include_def)

lemma incls_include: "incls (pp_include f eff s) = incls s @ [f]"
  by (simp add: pp_include_def)

lemma defined_initial: "pp_defined m (initial env) = (env m \<noteq> None)"
  by (simp add: pp_defined_def initial_def)

lemma fields_initial:
  "macros (initial env) = env" "defs (initial env) = []"
  "redefs (initial env) = []" "incls (initial env) = []"
  by (simp_all add: initial_def)

lemma redefined_by_other: "n \<noteq> m \<Longrightarrow> redefined_by (t(m \<mapsto> d')) n d = redefined_by t n d"
  by (simp add: redefined_by_def)

lemma redefined_by_subset: "set (redefined_by t n d) \<subseteq> dom t \<inter> {n}"
  by (cases "t n") (auto simp add: redefined_by_def)

lemmas pp_simps =
  preprocess_def sokol_defines_h_def pp_if_def pp_group_Nil pp_group_Cons
  macros_define defs_define redefs_define incls_define defined_define
  macros_include defs_include redefs_include incls_include
  defined_initial fields_initial

text \<open>The header's log and the table it leaves, for any table it starts with.\<close>

lemma defs_preprocess:
  "defs (preprocess tc env) =
     (if env ''__ANDROID__'' = None then [(''SOKOL_NO_ENTRY'', \<lparr>params = None, body = ''''\<rparr>)] else []) @
     (if env ''_WIN32'' \<noteq> None then
        [(''SOKOL_WIN32_FORCE_MAIN'', \<lparr>params = None, body = ''''\<rparr>),
         (''SOKOL_D3D11'', \<lparr>params = None, body = ''''\<rparr>),
         (''SOKOL_LOG'', \<lparr>params = Some [''msg''], body = ''OutputDebugStringA(msg)''\<rparr>)]
      else if env ''__APPLE__'' \<noteq> None then [(''SOKOL_METAL'', \<lparr>params = None, body = ''''\<rparr>)]
      else [(''SOKOL_GLCORE33'', \<lparr>params = None, body = ''''\<rparr>)])"
  by (simp add: pp_simps)

lemma defined_names_eq:
  "defined_names tc env =
     (if env ''__ANDROID__'' = None then [''SOKOL_NO_ENTRY''] else []) @
     (if env ''_WIN32'' \<noteq> None then [''SOKOL_WIN32_FORCE_MAIN'', ''SOKOL_D3D11'', ''SOKOL_LOG'']
      else if env ''__APPLE__'' \<noteq> None then [''SOKOL_METAL'']
      else [''SOKOL_GLCORE33''])"
  by (simp add: defined_names_def defs_preprocess)

lemma incls_preprocess:
  "incls (preprocess tc env) = (if env ''__APPLE__'' \<noteq> None then [''TargetConditionals.h''] else [])"
  by (simp add: pp_simps)

lemma macros_preprocess_plain:
  "macros (preprocess (\<lambda>t. t) env) = env ++ map_of (defs (preprocess tc env))"
  by (rule ext) (simp add: pp_simps map_add_def)

lemma macros_preprocess_through:
  "macros (preprocess tc env) =
     (if env ''__APPLE__'' \<noteq> None then tc (macros (preprocess (\<lambda>t. t) env))
      else macros (preprocess (\<lambda>t. t) env))"
  by (cases "env ''__APPLE__''") (simp_all add: pp_simps)

lemma macros_preprocess:
  "macros (preprocess tc env) =
     (if env ''__APPLE__'' \<noteq> None then tc (env ++ map_of (defs (preprocess tc env)))
      else env ++ map_of (defs (preprocess tc env)))"
  by (simp only: macros_preprocess_through [of tc env] macros_preprocess_plain [of env tc])

lemma redefs_preprocess:
  "redefs (preprocess tc env) = concat (map (\<lambda>(n, d). redefined_by env n d) (defs (preprocess tc env)))"
  by (simp add: pp_simps redefined_by_other)

lemma redefs_subset:
  "set (redefs (preprocess tc env)) \<subseteq> dom env \<inter> set (defined_names tc env)"
proof
  fix n
  assume "n \<in> set (redefs (preprocess tc env))"
  then obtain m d where md: "(m, d) \<in> set (defs (preprocess tc env))"
    and n: "n \<in> set (redefined_by env m d)"
    by (auto simp add: redefs_preprocess)
  from n redefined_by_subset [of env m d] have "n \<in> dom env" and "n = m"
    by auto
  with md show "n \<in> dom env \<inter> set (defined_names tc env)"
    by (force simp add: defined_names_def)
qed

section \<open>Backend selection\<close>










section \<open>The other macros and the include\<close>







section \<open>The macro namespace\<close>

lemma defined_names_subset:
  "set (defined_names tc env) \<subseteq>
     {''SOKOL_NO_ENTRY'', ''SOKOL_WIN32_FORCE_MAIN'', ''SOKOL_D3D11'', ''SOKOL_LOG'',
      ''SOKOL_METAL'', ''SOKOL_GLCORE33''}"
  by (auto simp add: defined_names_eq)


lemma macros_preprocess_no_include:
  "env ''__APPLE__'' = None \<Longrightarrow>
     macros (preprocess tc env) = env ++ map_of (defs (preprocess tc env))"
  by (simp add: macros_preprocess [of tc env])

lemma dom_macros_preprocess:
  "env ''__APPLE__'' = None \<Longrightarrow>
     dom (macros (preprocess tc env)) = dom env \<union> set (defined_names tc env)"
  by (simp add: macros_preprocess_no_include defined_names_def dom_map_of_conv_image_fst Un_commute)

lemma dom_predefined: "dom (predefined ns) = set ns"
  by (simp add: predefined_def dom_map_of_conv_image_fst image_image)



text \<open>
  C7. Macro definitions are never mutated. For every target, and whatever the included
  file does: each name the header defines is defined by at most one of the executed
  \<^verbatim>\<open>#define\<close> directives; the table the header leaves is the table it started with and
  exactly those definitions added, each macro with the value of its one directive and
  none undefined, passed through the included file when \<^verbatim>\<open>__APPLE__\<close> is defined; the
  only names a directive of the header can redefine are names that were in the table
  before the header was read, never one the header defined itself; and on a target whose
  table holds none of the names the header defines, as on every combination \<open>ns\<close> of the
  identifiers \<^verbatim>\<open>__ANDROID__\<close>, \<^verbatim>\<open>_WIN32\<close>, \<^verbatim>\<open>__APPLE__\<close>, nothing is redefined at all.
\<close>

theorem macros_never_mutated:
  "distinct (defined_names tc env) \<and>
   macros (preprocess tc env) =
     (if env ''__APPLE__'' \<noteq> None then tc (env ++ map_of (defs (preprocess tc env)))
      else env ++ map_of (defs (preprocess tc env))) \<and>
   (env ''__APPLE__'' = None \<longrightarrow>
      dom (macros (preprocess tc env)) = dom env \<union> set (defined_names tc env)) \<and>
   set (redefs (preprocess tc env)) \<subseteq> dom env \<inter> set (defined_names tc env) \<and>
   (dom env \<inter> set (defined_names tc env) = {} \<longrightarrow> redefs (preprocess tc env) = []) \<and>
   (set ns \<subseteq> {''__ANDROID__'', ''_WIN32'', ''__APPLE__''} \<longrightarrow>
      redefs (preprocess tc (predefined ns)) = [])"
proof (intro conjI impI)
  show "distinct (defined_names tc env)"
    by (simp add: defined_names_eq)
  show "macros (preprocess tc env) =
     (if env ''__APPLE__'' \<noteq> None then tc (env ++ map_of (defs (preprocess tc env)))
      else env ++ map_of (defs (preprocess tc env)))"
    by (rule macros_preprocess)
  show "set (redefs (preprocess tc env)) \<subseteq> dom env \<inter> set (defined_names tc env)"
    by (rule redefs_subset)
next
  assume "env ''__APPLE__'' = None"
  then show "dom (macros (preprocess tc env)) = dom env \<union> set (defined_names tc env)"
    by (rule dom_macros_preprocess)
next
  assume "dom env \<inter> set (defined_names tc env) = {}"
  with redefs_subset [of tc env] show "redefs (preprocess tc env) = []"
    by simp
next
  assume ns: "set ns \<subseteq> {''__ANDROID__'', ''_WIN32'', ''__APPLE__''}"
  have "dom (predefined ns) \<inter> set (defined_names tc (predefined ns)) = {}"
    using ns defined_names_subset [of tc "predefined ns"]
    by (auto simp add: dom_predefined)
  with redefs_subset [of tc "predefined ns"] show "redefs (preprocess tc (predefined ns)) = []"
    by simp
qed

text \<open>
  A macOS target, with an included file that defines \<^verbatim>\<open>TARGET_OS_MAC\<close>: two directives
  run, on two different names, nothing is redefined, and the table after the header holds
  \<^verbatim>\<open>SOKOL_METAL\<close> as the header defined it and \<^verbatim>\<open>TARGET_OS_MAC\<close> from the included file.
  A Linux target: nothing is included, and the table after the header holds the target's
  identifier and the two new macros.
\<close>

theorem macros_never_mutated_witness:
  "set [''__APPLE__''] \<subseteq> {''__ANDROID__'', ''_WIN32'', ''__APPLE__''} \<and>
   dom (predefined [''__APPLE__'']) \<inter>
     set (defined_names tc_sample (predefined [''__APPLE__''])) = {} \<and>
   defined_names tc_sample (predefined [''__APPLE__'']) = [''SOKOL_NO_ENTRY'', ''SOKOL_METAL''] \<and>
   redefs (preprocess tc_sample (predefined [''__APPLE__''])) = [] \<and>
   macros (preprocess tc_sample (predefined [''__APPLE__''])) ''SOKOL_METAL'' =
     Some \<lparr>params = None, body = ''''\<rparr> \<and>
   macros (preprocess tc_sample (predefined [''__APPLE__''])) ''TARGET_OS_MAC'' =
     Some \<lparr>params = None, body = ''1''\<rparr> \<and>
   predefined [''__linux__''] ''__APPLE__'' = None \<and>
   dom (macros (preprocess tc_sample (predefined [''__linux__'']))) =
     {''SOKOL_NO_ENTRY'', ''SOKOL_GLCORE33'', ''__linux__''}"
proof -
  have d: "defined_names tc_sample (predefined [''__APPLE__'']) =
      [''SOKOL_NO_ENTRY'', ''SOKOL_METAL'']"
    by (simp add: defined_names_eq predefined_def)
  have p: "dom (predefined [''__APPLE__'']) = {''__APPLE__''}"
    by (simp add: predefined_def)
  have s: "set [''__APPLE__''] \<subseteq> {''__ANDROID__'', ''_WIN32'', ''__APPLE__''}"
    by simp
  have e: "dom (predefined [''__APPLE__'']) \<inter>
      set (defined_names tc_sample (predefined [''__APPLE__''])) = {}"
    by (simp add: d p)
  note m = macros_never_mutated [where tc = tc_sample and env = "predefined [''__APPLE__'']"
      and ns = "[''__APPLE__'']"]
  from m have "dom (predefined [''__APPLE__'']) \<inter>
      set (defined_names tc_sample (predefined [''__APPLE__''])) = {}
      \<longrightarrow> redefs (preprocess tc_sample (predefined [''__APPLE__''])) = []"
    by (elim conjE)
  from this e have r: "redefs (preprocess tc_sample (predefined [''__APPLE__''])) = []"
    by (rule mp)
  from m have "set [''__APPLE__''] \<subseteq> {''__ANDROID__'', ''_WIN32'', ''__APPLE__''}
      \<longrightarrow> redefs (preprocess tc_sample (predefined [''__APPLE__''])) = []"
    by (elim conjE)
  from this s have r': "redefs (preprocess tc_sample (predefined [''__APPLE__''])) = []"
    by (rule mp)
  from m have t: "macros (preprocess tc_sample (predefined [''__APPLE__''])) =
      (if predefined [''__APPLE__''] ''__APPLE__'' \<noteq> None
       then tc_sample (predefined [''__APPLE__''] ++
         map_of (defs (preprocess tc_sample (predefined [''__APPLE__'']))))
       else predefined [''__APPLE__''] ++
         map_of (defs (preprocess tc_sample (predefined [''__APPLE__'']))))"
    by (elim conjE)
  have t1: "macros (preprocess tc_sample (predefined [''__APPLE__''])) ''SOKOL_METAL'' =
      Some \<lparr>params = None, body = ''''\<rparr>"
    by (subst t) (simp add: defs_preprocess predefined_def tc_sample_def map_add_def)
  have t2: "macros (preprocess tc_sample (predefined [''__APPLE__''])) ''TARGET_OS_MAC'' =
      Some \<lparr>params = None, body = ''1''\<rparr>"
    by (subst t) (simp add: predefined_def tc_sample_def)
  have l: "predefined [''__linux__''] ''__APPLE__'' = None"
    by (simp add: predefined_def)
  have ld: "defined_names tc_sample (predefined [''__linux__'']) =
      [''SOKOL_NO_ENTRY'', ''SOKOL_GLCORE33'']"
    by (simp add: defined_names_eq predefined_def)
  have lp: "dom (predefined [''__linux__'']) = {''__linux__''}"
    by (simp add: predefined_def)
  from macros_never_mutated [where tc = tc_sample and env = "predefined [''__linux__'']"
      and ns = "[]"]
  have "predefined [''__linux__''] ''__APPLE__'' = None \<longrightarrow>
      dom (macros (preprocess tc_sample (predefined [''__linux__'']))) =
      dom (predefined [''__linux__'']) \<union> set (defined_names tc_sample (predefined [''__linux__'']))"
    by (elim conjE)
  from this l have "dom (macros (preprocess tc_sample (predefined [''__linux__'']))) =
      dom (predefined [''__linux__'']) \<union> set (defined_names tc_sample (predefined [''__linux__'']))"
    by (rule mp)
  then have t3: "dom (macros (preprocess tc_sample (predefined [''__linux__'']))) =
      {''SOKOL_NO_ENTRY'', ''SOKOL_GLCORE33'', ''__linux__''}"
    by (simp add: ld lp)
  from s e d r r' t1 t2 l t3 show ?thesis
    by (intro conjI)
qed

section \<open>Dependence on the target\<close>

text \<open>
  C10. What the header defines and includes is a function of whether \<^verbatim>\<open>__ANDROID__\<close>,
  \<^verbatim>\<open>_WIN32\<close> and \<^verbatim>\<open>__APPLE__\<close> are defined, and of nothing else in the macro table (nor of
  what the included file does): two runs on tables that agree on these three identifiers
  execute the same \<^verbatim>\<open>#define\<close> directives, with the same definitions, and the same
  \<^verbatim>\<open>#include\<close> directives.
\<close>

theorem output_depends_on_platform_only:
  assumes "platform env1 = platform env2"
  shows "defs (preprocess tc1 env1) = defs (preprocess tc2 env2) \<and>
         incls (preprocess tc1 env1) = incls (preprocess tc2 env2)"
proof -
  from assms have "(env1 ''__ANDROID__'' = None) = (env2 ''__ANDROID__'' = None)"
    and "(env1 ''_WIN32'' = None) = (env2 ''_WIN32'' = None)"
    and "(env1 ''__APPLE__'' = None) = (env2 ''__APPLE__'' = None)"
    by (simp_all add: platform_def del: not_None_eq)
  then show ?thesis
    by (simp add: defs_preprocess incls_preprocess)
qed

text \<open>
  Two Windows targets whose tables differ (one also predefines \<^verbatim>\<open>_WIN64\<close> and
  \<^verbatim>\<open>_MSC_VER\<close>) and agree on the three identifiers.
\<close>

theorem output_depends_on_platform_only_witness:
  "platform (predefined [''_WIN32'']) = platform (predefined [''_WIN32'', ''_WIN64'', ''_MSC_VER'']) \<and>
   predefined [''_WIN32''] ''_WIN64'' \<noteq> predefined [''_WIN32'', ''_WIN64'', ''_MSC_VER''] ''_WIN64'' \<and>
   defs (preprocess tc_sample (predefined [''_WIN32''])) =
     defs (preprocess tc_sample (predefined [''_WIN32'', ''_WIN64'', ''_MSC_VER''])) \<and>
   incls (preprocess tc_sample (predefined [''_WIN32''])) =
     incls (preprocess tc_sample (predefined [''_WIN32'', ''_WIN64'', ''_MSC_VER'']))"
proof -
  have p: "platform (predefined [''_WIN32'']) =
      platform (predefined [''_WIN32'', ''_WIN64'', ''_MSC_VER''])"
    by (simp add: platform_def predefined_def)
  have q: "predefined [''_WIN32''] ''_WIN64'' \<noteq>
      predefined [''_WIN32'', ''_WIN64'', ''_MSC_VER''] ''_WIN64''"
    by (simp add: predefined_def)
  from p q output_depends_on_platform_only [of _ _ tc_sample tc_sample, OF p] show ?thesis
    by simp
qed

text \<open>
  Each of the three identifiers is read: changing any one of them alone changes what
  the header defines.
\<close>

lemma each_identifier_is_read:
  "defined_names tc (predefined [''__ANDROID__'']) \<noteq> defined_names tc (predefined [])"
  "defined_names tc (predefined [''_WIN32'']) \<noteq> defined_names tc (predefined [])"
  "defined_names tc (predefined [''__APPLE__'']) \<noteq> defined_names tc (predefined [])"
  by (simp_all add: defined_names_eq predefined_def)

end
